theory Spec2Isabelle
  imports Main
begin

section \<open>Go values the library is built from\<close>

text \<open>
  Both containers hold their payload behind a Go pointer (\<^verbatim>\<open>value *T\<close>), so the
  embedding keeps an explicit store. A pointer is \<^verbatim>\<open>nil\<close> or the address of a cell;
  the store of the cells of one Go type is a list, and the address of a cell is its index.
\<close>

datatype pointer = nil | Addr nat

type_synonym 'a heap = "'a list"

text \<open>
  What a \<^verbatim>\<open>panic\<close> carries. The library panics with the package variable
  \<^verbatim>\<open>ErrNoValue\<close> (\<^verbatim>\<open>errors.New("option contains no value")\<close>) or with a string;
  the Go runtime panics when an invalid address (\<^verbatim>\<open>nil\<close> included) is dereferenced.
\<close>

datatype panic =
    panic_ErrNoValue
  | panic_string string
  | runtime_error_invalid_memory_address

text \<open>
  A value of the interface type \<^verbatim>\<open>error\<close>: the nil interface, or a dynamic value of some
  error type \<open>'e\<close>.
\<close>

datatype 'e error = nil_error | error_value 'e

text \<open>
  \<^verbatim>\<open>&v\<close> for a local \<^verbatim>\<open>v\<close> that escapes: a fresh cell that holds a copy of \<^verbatim>\<open>v\<close>.
\<close>

definition new :: "'a \<Rightarrow> 'a heap \<Rightarrow> pointer \<times> 'a heap" where
  "new v h = (Addr (length h), h @ [v])"

text \<open>
  \<^verbatim>\<open>*p\<close> as an expression. Go has no pointer to a cell that was never allocated; the
  model answers an address beyond the store as it answers \<^verbatim>\<open>nil\<close>.
\<close>

definition deref :: "pointer \<Rightarrow> 'a heap \<Rightarrow> panic + 'a" where
  "deref p h =
     (case p of
        nil \<Rightarrow> Inl runtime_error_invalid_memory_address
      | Addr n \<Rightarrow>
          if n < length h then Inr (h ! n) else Inl runtime_error_invalid_memory_address)"

text \<open>\<^verbatim>\<open>*p = v\<close>, the assignment through a pointer.\<close>

definition assign :: "pointer \<Rightarrow> 'a \<Rightarrow> 'a heap \<Rightarrow> panic + 'a heap" where
  "assign p v h =
     (case p of
        nil \<Rightarrow> Inl runtime_error_invalid_memory_address
      | Addr n \<Rightarrow>
          if n < length h then Inr (h[n := v]) else Inl runtime_error_invalid_memory_address)"

text \<open>
  \<^verbatim>\<open>fmt.Sprintf("%v", err)\<close> for an \<^verbatim>\<open>error\<close>: \<^verbatim>\<open><nil>\<close> for the nil interface,
  otherwise what the dynamic value prints (\<open>show_err\<close>, its \<^verbatim>\<open>Error()\<close> text).
\<close>

definition Sprintf_v_error :: "('e \<Rightarrow> string) \<Rightarrow> 'e error \<Rightarrow> string" where
  "Sprintf_v_error show_err e =
     (case e of nil_error \<Rightarrow> ''<nil>'' | error_value x \<Rightarrow> show_err x)"

text \<open>
  \<^verbatim>\<open>json.Marshal(p)\<close> for a pointer \<^verbatim>\<open>p\<close> of type \<^verbatim>\<open>*T\<close>: the literal \<^verbatim>\<open>null\<close> for a nil
  pointer, otherwise the encoding of the pointee. \<open>json_Marshal v\<close> stands for the
  bytes and the error that \<^verbatim>\<open>encoding/json\<close> produces for the value \<open>v\<close> of type
  \<^verbatim>\<open>T\<close>.
\<close>

definition json_Marshal_ptr ::
  "('a \<Rightarrow> string \<times> 'e error) \<Rightarrow> pointer \<Rightarrow> 'a heap \<Rightarrow> panic + (string \<times> 'e error)" where
  "json_Marshal_ptr json_Marshal p h =
     (if p = nil then Inr (''null'', nil_error)
      else case deref p h of Inl x \<Rightarrow> Inl x | Inr v \<Rightarrow> Inr (json_Marshal v))"

section \<open>Option\<close>

text \<open>
  \<^verbatim>\<open>type Option[T any] struct { value *T; valid bool }\<close>. The pointer refers into the
  store of \<^verbatim>\<open>T\<close> cells, which every operation that reads or allocates takes as an argument.
\<close>

record Option =
  o_value :: pointer
  o_valid :: bool

text \<open>The zero value, as in \<^verbatim>\<open>var o Option[T]\<close>: a nil pointer and \<^verbatim>\<open>false\<close>.\<close>

definition zero_Option :: Option where
  "zero_Option = \<lparr>o_value = nil, o_valid = False\<rparr>"

definition Some_Option :: "'a \<Rightarrow> 'a heap \<Rightarrow> Option \<times> 'a heap" where
  "Some_Option v h = (case new v h of (p, h') \<Rightarrow> (\<lparr>o_value = p, o_valid = True\<rparr>, h'))"

definition None_Option :: Option where
  "None_Option = \<lparr>o_value = nil, o_valid = False\<rparr>"

definition FromPtr :: "pointer \<Rightarrow> 'a heap \<Rightarrow> panic + (Option \<times> 'a heap)" where
  "FromPtr ptr h =
     (if ptr = nil then Inr (None_Option, h)
      else case deref ptr h of Inl x \<Rightarrow> Inl x | Inr v \<Rightarrow> Inr (Some_Option v h))"

definition ToPtr :: "Option \<Rightarrow> 'a heap \<Rightarrow> panic + (pointer \<times> 'a heap)" where
  "ToPtr opt h =
     (if \<not> o_valid opt then Inr (nil, h)
      else case deref (o_value opt) h of Inl x \<Rightarrow> Inl x | Inr v \<Rightarrow> Inr (new v h))"

definition IsSome :: "Option \<Rightarrow> bool" where
  "IsSome opt = o_valid opt"

definition IsNone :: "Option \<Rightarrow> bool" where
  "IsNone opt = (\<not> o_valid opt)"

definition Option_Unwrap :: "Option \<Rightarrow> 'a heap \<Rightarrow> panic + 'a" where
  "Option_Unwrap opt h =
     (if \<not> o_valid opt then Inl panic_ErrNoValue else deref (o_value opt) h)"

definition Option_UnwrapOr :: "Option \<Rightarrow> 'a \<Rightarrow> 'a heap \<Rightarrow> panic + 'a" where
  "Option_UnwrapOr opt defaultValue h =
     (if \<not> o_valid opt then Inr defaultValue else deref (o_value opt) h)"

text \<open>
  A function value passed to a combinator is Go code: it may panic, and it may change the
  program state instead of only returning. A callback is therefore a function of the state
  that yields a panic, or its result together with the state it leaves. That a combinator
  does not invoke its callback then shows: whatever the callback would do, neither the
  result nor the state depends on it.
\<close>

definition Option_UnwrapOrElse ::
  "Option \<Rightarrow> ('a heap \<Rightarrow> panic + ('a \<times> 'a heap)) \<Rightarrow> 'a heap \<Rightarrow> panic + ('a \<times> 'a heap)" where
  "Option_UnwrapOrElse opt f h =
     (if \<not> o_valid opt then f h
      else case deref (o_value opt) h of Inl x \<Rightarrow> Inl x | Inr v \<Rightarrow> Inr (v, h))"

definition Option_Map ::
  "Option \<Rightarrow> ('a \<Rightarrow> 'a heap \<Rightarrow> panic + ('a \<times> 'a heap)) \<Rightarrow> 'a heap
     \<Rightarrow> panic + (Option \<times> 'a heap)" where
  "Option_Map opt f h =
     (if \<not> o_valid opt then Inr (opt, h)
      else case deref (o_value opt) h of
             Inl x \<Rightarrow> Inl x
           | Inr v \<Rightarrow>
               (case f v h of Inl x \<Rightarrow> Inl x | Inr (w, h') \<Rightarrow> Inr (Some_Option w h')))"

definition Option_FlatMap ::
  "Option \<Rightarrow> ('a \<Rightarrow> 'a heap \<Rightarrow> panic + (Option \<times> 'a heap)) \<Rightarrow> 'a heap
     \<Rightarrow> panic + (Option \<times> 'a heap)" where
  "Option_FlatMap opt f h =
     (if \<not> o_valid opt then Inr (opt, h)
      else case deref (o_value opt) h of Inl x \<Rightarrow> Inl x | Inr v \<Rightarrow> f v h)"

text \<open>
  \<^verbatim>\<open>MarshalJSON\<close> returns bytes and an error; \<open>json_Marshal\<close> is the encoding of
  \<^verbatim>\<open>T\<close> values, as above.
\<close>

definition Option_MarshalJSON ::
  "('a \<Rightarrow> string \<times> 'e error) \<Rightarrow> Option \<Rightarrow> 'a heap \<Rightarrow> panic + (string \<times> 'e error)" where
  "Option_MarshalJSON json_Marshal opt h =
     (if \<not> o_valid opt then Inr (''null'', nil_error)
      else json_Marshal_ptr json_Marshal (o_value opt) h)"

text \<open>
  \<^verbatim>\<open>UnmarshalJSON\<close> has a pointer receiver and assigns to \<^verbatim>\<open>*o\<close>: the Option the
  receiver points to goes in as \<open>opt\<close> and comes out as the second component of the
  result, after the returned error. \<open>json_Unmarshal data x\<close> is
  \<^verbatim>\<open>json.Unmarshal(data, &value)\<close> with \<^verbatim>\<open>value\<close> holding \<open>x\<close> before the call: the
  error it returns and what \<^verbatim>\<open>value\<close> holds after it. \<open>zero\<close> is the zero value of
  \<^verbatim>\<open>T\<close>, which \<^verbatim>\<open>var value T\<close> declares.
\<close>

definition Option_UnmarshalJSON ::
  "(string \<Rightarrow> 'a \<Rightarrow> 'e error \<times> 'a) \<Rightarrow> 'a \<Rightarrow> Option \<Rightarrow> string \<Rightarrow> 'a heap
     \<Rightarrow> 'e error \<times> Option \<times> 'a heap" where
  "Option_UnmarshalJSON json_Unmarshal zero opt data h =
     (if data = ''null'' then (nil_error, None_Option, h)
      else case json_Unmarshal data zero of
             (err, val) \<Rightarrow>
               if err \<noteq> nil_error then (err, opt, h)
               else (case Some_Option val h of (opt', h') \<Rightarrow> (nil_error, opt', h')))"

text \<open>
  \<^verbatim>\<open>String\<close>; \<open>show_val\<close> is what \<^verbatim>\<open>%v\<close> prints for a value of \<^verbatim>\<open>T\<close>.
\<close>

definition Option_String :: "('a \<Rightarrow> string) \<Rightarrow> Option \<Rightarrow> 'a heap \<Rightarrow> panic + string" where
  "Option_String show_val opt h =
     (if \<not> o_valid opt then Inr ''None''
      else case deref (o_value opt) h of
             Inl x \<Rightarrow> Inl x
           | Inr v \<Rightarrow> Inr (''Some('' @ show_val v @ '')''))"

section \<open>Result\<close>

text \<open>
  \<^verbatim>\<open>type Result[T any] struct { value *T; err error; valid bool }\<close>.
\<close>

record 'e Result =
  r_value :: pointer
  r_err :: "'e error"
  r_valid :: bool

definition Ok :: "'a \<Rightarrow> 'a heap \<Rightarrow> 'e Result \<times> 'a heap" where
  "Ok v h =
     (case new v h of (p, h') \<Rightarrow> (\<lparr>r_value = p, r_err = nil_error, r_valid = True\<rparr>, h'))"

definition Err :: "'e error \<Rightarrow> 'e Result" where
  "Err err = \<lparr>r_value = nil, r_err = err, r_valid = False\<rparr>"

definition IsOk :: "'e Result \<Rightarrow> bool" where
  "IsOk r = r_valid r"

definition IsErr :: "'e Result \<Rightarrow> bool" where
  "IsErr r = (\<not> r_valid r)"

definition Result_Unwrap :: "('e \<Rightarrow> string) \<Rightarrow> 'e Result \<Rightarrow> 'a heap \<Rightarrow> panic + 'a" where
  "Result_Unwrap show_err r h =
     (if \<not> r_valid r
      then Inl (panic_string
             (''called unwrap on an error result: '' @ Sprintf_v_error show_err (r_err r)))
      else deref (r_value r) h)"

definition Result_UnwrapOr :: "'e Result \<Rightarrow> 'a \<Rightarrow> 'a heap \<Rightarrow> panic + 'a" where
  "Result_UnwrapOr r defaultValue h =
     (if \<not> r_valid r then Inr defaultValue else deref (r_value r) h)"

definition UnwrapErr :: "'e Result \<Rightarrow> panic + 'e error" where
  "UnwrapErr r =
     (if r_valid r then Inl (panic_string ''called unwrap_err on an ok result'')
      else Inr (r_err r))"

definition Result_Map ::
  "'e Result \<Rightarrow> ('a \<Rightarrow> 'a heap \<Rightarrow> panic + ('a \<times> 'a heap)) \<Rightarrow> 'a heap
     \<Rightarrow> panic + ('e Result \<times> 'a heap)" where
  "Result_Map r f h =
     (if \<not> r_valid r then Inr (r, h)
      else case deref (r_value r) h of
             Inl x \<Rightarrow> Inl x
           | Inr v \<Rightarrow> (case f v h of Inl x \<Rightarrow> Inl x | Inr (w, h') \<Rightarrow> Inr (Ok w h')))"

text \<open>
  \<^verbatim>\<open>MapTo\<close> and \<^verbatim>\<open>FlatMapTo\<close> read the payload from the store of \<^verbatim>\<open>T\<close> cells
  (\<open>hT\<close>); what they build lives in the store of \<^verbatim>\<open>U\<close> cells.
\<close>

definition MapTo ::
  "'e Result \<Rightarrow> ('a \<Rightarrow> 'b heap \<Rightarrow> panic + ('b \<times> 'b heap)) \<Rightarrow> 'a heap \<Rightarrow> 'b heap
     \<Rightarrow> panic + ('e Result \<times> 'b heap)" where
  "MapTo r f hT hU =
     (if \<not> r_valid r then Inr (Err (r_err r), hU)
      else case deref (r_value r) hT of
             Inl x \<Rightarrow> Inl x
           | Inr v \<Rightarrow> (case f v hU of Inl x \<Rightarrow> Inl x | Inr (w, hU') \<Rightarrow> Inr (Ok w hU')))"

text \<open>
  \<^verbatim>\<open>MapErr\<close> and \<^verbatim>\<open>FlatMapTo\<close> allocate nothing themselves, so the state their
  callback works on is left open (\<open>'s\<close>).
\<close>

definition MapErr ::
  "'e Result \<Rightarrow> ('e error \<Rightarrow> 's \<Rightarrow> panic + ('e error \<times> 's)) \<Rightarrow> 's \<Rightarrow> panic + ('e Result \<times> 's)" where
  "MapErr r f s =
     (if r_valid r then Inr (r, s)
      else case f (r_err r) s of Inl x \<Rightarrow> Inl x | Inr (e, s') \<Rightarrow> Inr (Err e, s'))"

definition Result_FlatMap ::
  "'e Result \<Rightarrow> ('a \<Rightarrow> 'a heap \<Rightarrow> panic + ('e Result \<times> 'a heap)) \<Rightarrow> 'a heap
     \<Rightarrow> panic + ('e Result \<times> 'a heap)" where
  "Result_FlatMap r f h =
     (if \<not> r_valid r then Inr (r, h)
      else case deref (r_value r) h of Inl x \<Rightarrow> Inl x | Inr v \<Rightarrow> f v h)"

definition FlatMapTo ::
  "'e Result \<Rightarrow> ('a \<Rightarrow> 's \<Rightarrow> panic + ('e Result \<times> 's)) \<Rightarrow> 'a heap \<Rightarrow> 's
     \<Rightarrow> panic + ('e Result \<times> 's)" where
  "FlatMapTo r f hT s =
     (if \<not> r_valid r then Inr (Err (r_err r), s)
      else case deref (r_value r) hT of Inl x \<Rightarrow> Inl x | Inr v \<Rightarrow> f v s)"

definition ToOption :: "'e Result \<Rightarrow> 'a heap \<Rightarrow> panic + (Option \<times> 'a heap)" where
  "ToOption r h =
     (if \<not> r_valid r then Inr (None_Option, h)
      else case deref (r_value r) h of Inl x \<Rightarrow> Inl x | Inr v \<Rightarrow> Inr (Some_Option v h))"

text \<open>\<^verbatim>\<open>Option.ToResult\<close>, defined here because it builds a Result.\<close>

definition ToResult :: "Option \<Rightarrow> 'e error \<Rightarrow> 'a heap \<Rightarrow> panic + ('e Result \<times> 'a heap)" where
  "ToResult opt err h =
     (if \<not> o_valid opt then Inr (Err err, h)
      else case deref (o_value opt) h of Inl x \<Rightarrow> Inl x | Inr v \<Rightarrow> Inr (Ok v h))"

text \<open>
  The property the specification asks of every Result: a failure carries an error that
  is not nil.
\<close>

definition failure_has_error :: "'e Result \<Rightarrow> bool" where
  "failure_has_error r = (IsErr r \<longrightarrow> r_err r \<noteq> nil_error)"

section \<open>A concrete instance: \<^verbatim>\<open>Option[*bool]\<close>\<close>

text \<open>
  For \<^verbatim>\<open>T = *bool\<close> a value of \<^verbatim>\<open>T\<close> is nil or points to a boolean; only the pointee
  matters to the encoding, so such a value is written \<open>None\<close> (nil) or \<open>Some b\<close>.
  The two functions follow \<^verbatim>\<open>encoding/json\<close> at this type: a nil pointer is encoded as
  \<^verbatim>\<open>null\<close> and a pointer to a boolean as \<^verbatim>\<open>true\<close> or \<^verbatim>\<open>false\<close>; \<^verbatim>\<open>null\<close> is
  decoded to a nil pointer, \<^verbatim>\<open>true\<close> and \<^verbatim>\<open>false\<close> to a pointer to that boolean.
  Input that is none of the three tokens is answered with an error (white space around a
  token is not modelled).
\<close>

definition json_Marshal_bool_ptr :: "bool option \<Rightarrow> string \<times> string error" where
  "json_Marshal_bool_ptr x =
     (case x of
        None \<Rightarrow> (''null'', nil_error)
      | Some b \<Rightarrow> (if b then ''true'' else ''false'', nil_error))"

definition json_Unmarshal_bool_ptr :: "string \<Rightarrow> bool option \<Rightarrow> string error \<times> bool option" where
  "json_Unmarshal_bool_ptr data x =
     (if data = ''null'' then (nil_error, None)
      else if data = ''true'' then (nil_error, Some True)
      else if data = ''false'' then (nil_error, Some False)
      else (error_value ''json: cannot decode into Go value of type *bool'', x))"

section \<open>Unfolding the operations\<close>

lemmas option_defs = Some_Option_def None_Option_def zero_Option_def IsSome_def IsNone_def
  Option_Unwrap_def Option_UnwrapOr_def new_def deref_def

lemmas result_defs = Ok_def Err_def IsOk_def IsErr_def Result_Unwrap_def UnwrapErr_def
  new_def deref_def

section \<open>Unwrapping\<close>

text \<open>
  C1. \<^verbatim>\<open>Some(v).Unwrap()\<close> returns \<^verbatim>\<open>v\<close>, in whatever store \<^verbatim>\<open>Some\<close> ran; \<^verbatim>\<open>Unwrap\<close> on
  \<^verbatim>\<open>None[T]()\<close> panics (with \<^verbatim>\<open>ErrNoValue\<close>) and so returns no value of \<^verbatim>\<open>T\<close> at all.
\<close>

theorem Option_Unwrap_Some_None:
  "(case Some_Option v h of (opt, h') \<Rightarrow> Option_Unwrap opt h') = Inr v
   \<and> Option_Unwrap None_Option h = (Inl panic_ErrNoValue :: panic + 'a)
   \<and> (\<forall>z :: 'a. Option_Unwrap None_Option h \<noteq> Inr z)"
  by (simp add: option_defs)

text \<open>
  C2. \<^verbatim>\<open>Ok(v).Unwrap()\<close> returns \<^verbatim>\<open>v\<close> and \<^verbatim>\<open>Ok(v).UnwrapErr()\<close> panics;
  \<^verbatim>\<open>Err(e).UnwrapErr()\<close> returns \<^verbatim>\<open>e\<close> and \<^verbatim>\<open>Err(e).Unwrap()\<close> panics with a message
  that ends in the \<^verbatim>\<open>%v\<close> rendering of \<^verbatim>\<open>e\<close>: for an error value, its own text.
\<close>

theorem Result_Unwrap_UnwrapErr:
  "(case Ok v h of (r, h') \<Rightarrow>
      Result_Unwrap show_err r h' = Inr v
      \<and> UnwrapErr r = Inl (panic_string ''called unwrap_err on an ok result''))
   \<and> UnwrapErr (Err e) = Inr e
   \<and> Result_Unwrap show_err (Err e) h
       = Inl (panic_string (''called unwrap on an error result: '' @ Sprintf_v_error show_err e))
   \<and> Result_Unwrap show_err (Err (error_value x)) h
       = Inl (panic_string (''called unwrap on an error result: '' @ show_err x))"
  by (simp add: result_defs Sprintf_v_error_def)

section \<open>Chaining and conversion\<close>

text \<open>
  C4. On \<^verbatim>\<open>Err(e)\<close>, \<^verbatim>\<open>FlatMap\<close> returns \<^verbatim>\<open>Err(e)\<close> and \<^verbatim>\<open>FlatMapTo\<close> returns the
  failure that carries \<^verbatim>\<open>e\<close>, and the state is the one before the call: this holds for
  every callback, also one that would panic or change the state, so the callback is not
  run. On \<^verbatim>\<open>Ok(v)\<close> both are the callback applied to \<^verbatim>\<open>v\<close>.
\<close>

theorem FlatMap_short_circuit:
  "Result_FlatMap (Err e) f h = Inr (Err e, h)
   \<and> FlatMapTo (Err e) g hT s = Inr (Err e, s)
   \<and> (case Ok v h of (r, h') \<Rightarrow> Result_FlatMap r f h' = f v h')
   \<and> (case Ok v hT of (r, hT') \<Rightarrow> FlatMapTo r g hT' s = g v s)"
  by (simp add: result_defs Result_FlatMap_def FlatMapTo_def)

text \<open>
  C5. \<^verbatim>\<open>Some(v).ToResult(e)\<close> is a success that unwraps to \<^verbatim>\<open>v\<close>;
  \<^verbatim>\<open>None().ToResult(e)\<close> is the failure \<^verbatim>\<open>Err(e)\<close>, whose \<^verbatim>\<open>UnwrapErr()\<close> is \<^verbatim>\<open>e\<close>;
  \<^verbatim>\<open>Ok(v).ToOption()\<close> is present and unwraps to \<^verbatim>\<open>v\<close>; \<^verbatim>\<open>Err(e).ToOption()\<close> is
  \<^verbatim>\<open>None\<close>, whatever \<^verbatim>\<open>e\<close> was.
\<close>

theorem ToResult_ToOption:
  "(case Some_Option v h of (opt, h1) \<Rightarrow>
      \<exists>r h2. ToResult opt e h1 = Inr (r, h2) \<and> IsOk r \<and> Result_Unwrap show_err r h2 = Inr v)
   \<and> ToResult None_Option e h = Inr (Err e, h) \<and> IsErr (Err e) \<and> UnwrapErr (Err e) = Inr e
   \<and> (case Ok v h of (r, h1) \<Rightarrow>
        \<exists>opt h2. ToOption r h1 = Inr (opt, h2) \<and> IsSome opt \<and> Option_Unwrap opt h2 = Inr v)
   \<and> ToOption (Err e) h = Inr (None_Option, h) \<and> IsNone None_Option"
  by (simp add: result_defs option_defs ToResult_def ToOption_def nth_append)

text \<open>
  C6. \<^verbatim>\<open>Some(v).Map(f)\<close>: when \<^verbatim>\<open>f\<close> returns \<^verbatim>\<open>w\<close> for \<^verbatim>\<open>v\<close>, the result is present
  and unwraps to \<^verbatim>\<open>w\<close> (when \<^verbatim>\<open>f\<close> panics, so does \<^verbatim>\<open>Map\<close>); for a function \<open>g\<close>
  without effects it unwraps to \<open>g v\<close>. \<^verbatim>\<open>None().Map(f)\<close> is \<^verbatim>\<open>None\<close> and the state
  is untouched, for every \<^verbatim>\<open>f\<close>: the callback is not run.
\<close>

theorem Option_Map_functor:
  "(case Some_Option v h of (opt, h1) \<Rightarrow>
      (case f v h1 of
         Inl x \<Rightarrow> Option_Map opt f h1 = Inl x
       | Inr (w, h2) \<Rightarrow>
           \<exists>opt' h3. Option_Map opt f h1 = Inr (opt', h3) \<and> IsSome opt'
             \<and> Option_Unwrap opt' h3 = Inr w))
   \<and> (case Some_Option v h of (opt, h1) \<Rightarrow>
        \<exists>opt' h3. Option_Map opt (\<lambda>x s. Inr (g x, s)) h1 = Inr (opt', h3) \<and> IsSome opt'
          \<and> Option_Unwrap opt' h3 = Inr (g v))
   \<and> Option_Map None_Option f h = Inr (None_Option, h)"
  by (simp add: option_defs Option_Map_def nth_append split: sum.split prod.split)

section \<open>Pointers\<close>

text \<open>
  \<^verbatim>\<open>ToPtr\<close> on a present Option whose cell holds \<open>v\<close> allocates: the pointer it
  returns is a new address, so an assignment through it leaves the Option's cell alone.
\<close>

lemma ToPtr_copy:
  assumes "o_valid opt" and "deref (o_value opt) h = Inr v"
  shows "\<exists>p' h2. ToPtr opt h = Inr (p', h2) \<and> p' \<noteq> nil \<and> p' \<noteq> o_value opt
           \<and> deref p' h2 = Inr v
           \<and> (\<forall>w. \<exists>h3. assign p' w h2 = Inr h3 \<and> deref p' h3 = Inr w
                 \<and> Option_Unwrap opt h3 = Inr v)"
proof -
  from assms(2) obtain n where n: "o_value opt = Addr n" "n < length h" "h ! n = v"
    by (auto simp: deref_def split: pointer.splits if_splits)
  have "ToPtr opt h = Inr (Addr (length h), h @ [v])"
    using assms by (simp add: ToPtr_def new_def)
  moreover have "deref (Addr (length h)) (h @ [v]) = Inr v"
    by (simp add: deref_def)
  moreover have "\<forall>w. \<exists>h3. assign (Addr (length h)) w (h @ [v]) = Inr h3
      \<and> deref (Addr (length h)) h3 = Inr w \<and> Option_Unwrap opt h3 = Inr v"
    using assms(1) n by (simp add: assign_def deref_def Option_Unwrap_def nth_append)
  ultimately show ?thesis using n by auto
qed

text \<open>
  C8. \<^verbatim>\<open>FromPtr(nil)\<close> is \<^verbatim>\<open>None\<close>; for a pointer \<open>p\<close> that is not nil, with
  \<^verbatim>\<open>*p\<close> equal to \<open>v\<close>, \<^verbatim>\<open>FromPtr(p)\<close> is present and unwraps to \<open>v\<close>.
  \<^verbatim>\<open>ToPtr\<close> on \<^verbatim>\<open>None\<close> is nil; on \<^verbatim>\<open>Some(v)\<close> it is a pointer that is not nil, differs
  from the Option's own, and points to \<open>v\<close>; after any assignment \<^verbatim>\<open>*p' = w\<close> through
  it the Option still unwraps to \<open>v\<close>.
\<close>

theorem FromPtr_ToPtr:
  "FromPtr nil h = Inr (None_Option, h)
   \<and> (deref p h = Inr v \<longrightarrow>
        (\<exists>opt h'. FromPtr p h = Inr (opt, h') \<and> IsSome opt \<and> Option_Unwrap opt h' = Inr v))
   \<and> ToPtr None_Option h = Inr (nil, h)
   \<and> (case Some_Option v h of (opt, h1) \<Rightarrow>
        \<exists>p' h2. ToPtr opt h1 = Inr (p', h2) \<and> p' \<noteq> nil \<and> p' \<noteq> o_value opt
          \<and> deref p' h2 = Inr v
          \<and> (\<forall>w. \<exists>h3. assign p' w h2 = Inr h3 \<and> deref p' h3 = Inr w
                \<and> Option_Unwrap opt h3 = Inr v))"
proof -
  have a: "FromPtr nil h = Inr (None_Option, h)"
    by (simp add: FromPtr_def)
  have b: "deref p h = Inr v \<longrightarrow>
        (\<exists>opt h'. FromPtr p h = Inr (opt, h') \<and> IsSome opt \<and> Option_Unwrap opt h' = Inr v)"
    by (auto simp: FromPtr_def option_defs split: pointer.splits if_splits)
  have c: "ToPtr None_Option h = Inr (nil, h)"
    by (simp add: ToPtr_def None_Option_def)
  have d: "case Some_Option v h of (opt, h1) \<Rightarrow>
        \<exists>p' h2. ToPtr opt h1 = Inr (p', h2) \<and> p' \<noteq> nil \<and> p' \<noteq> o_value opt
          \<and> deref p' h2 = Inr v
          \<and> (\<forall>w. \<exists>h3. assign p' w h2 = Inr h3 \<and> deref p' h3 = Inr w
                \<and> Option_Unwrap opt h3 = Inr v)"
    using ToPtr_copy [of "fst (Some_Option v h)" "snd (Some_Option v h)" v]
    by (simp add: Some_Option_def new_def deref_def)
  from a b c d show ?thesis by blast
qed

text \<open>
  The pointer case at a store of one cell: \<open>Addr 0\<close> points to \<open>True\<close>, and
  \<^verbatim>\<open>FromPtr\<close> of it is present with that value.
\<close>

theorem FromPtr_ToPtr_witness:
  "deref (Addr 0) [True] = Inr True
   \<and> (\<exists>opt h'. FromPtr (Addr 0) [True] = Inr (opt, h') \<and> IsSome opt
         \<and> Option_Unwrap opt h' = Inr True)"
  using FromPtr_ToPtr [of "[True]" "Addr 0" True] by (simp add: deref_def)

section \<open>The zero value\<close>

text \<open>
  C9. The zero value of \<^verbatim>\<open>Option[T]\<close> is the value \<^verbatim>\<open>None[T]()\<close> builds, so no
  operation tells them apart; in particular \<^verbatim>\<open>IsSome\<close> is false, \<^verbatim>\<open>IsNone\<close> is true,
  \<^verbatim>\<open>UnwrapOr(d)\<close> is \<^verbatim>\<open>d\<close>, \<^verbatim>\<open>Unwrap\<close> panics, \<^verbatim>\<open>String\<close> is \<^verbatim>\<open>None\<close> and
  \<^verbatim>\<open>MarshalJSON\<close> yields \<^verbatim>\<open>null\<close> with no error.
\<close>

theorem zero_Option_is_None:
  "zero_Option = None_Option
   \<and> \<not> IsSome zero_Option
   \<and> IsNone zero_Option
   \<and> Option_UnwrapOr zero_Option d h = Inr d
   \<and> Option_Unwrap zero_Option h = (Inl panic_ErrNoValue :: panic + 'a)
   \<and> Option_String show_val zero_Option h = Inr ''None''
   \<and> Option_MarshalJSON json_Marshal zero_Option h = Inr (''null'', nil_error)"
  by (simp add: option_defs Option_String_def Option_MarshalJSON_def)

section \<open>JSON\<close>

text \<open>
  C10. When the input is not \<^verbatim>\<open>null\<close> and \<^verbatim>\<open>json.Unmarshal\<close> reports an error,
  \<^verbatim>\<open>UnmarshalJSON\<close> returns that error, and the receiver and the store are as before.
\<close>

theorem UnmarshalJSON_error_keeps_receiver:
  "data \<noteq> ''null'' \<Longrightarrow> json_Unmarshal data zero = (err, x) \<Longrightarrow> err \<noteq> nil_error \<Longrightarrow>
   Option_UnmarshalJSON json_Unmarshal zero opt data h = (err, opt, h)"
  by (simp add: Option_UnmarshalJSON_def)

text \<open>
  The input \<^verbatim>\<open>maybe\<close> does not decode as \<^verbatim>\<open>*bool\<close>; a present receiver and an absent
  one are both kept.
\<close>

theorem UnmarshalJSON_error_keeps_receiver_witness:
  "''maybe'' \<noteq> ''null''
   \<and> json_Unmarshal_bool_ptr ''maybe'' None
       = (error_value ''json: cannot decode into Go value of type *bool'', None)
   \<and> error_value ''json: cannot decode into Go value of type *bool'' \<noteq> (nil_error :: string error)
   \<and> Option_UnmarshalJSON json_Unmarshal_bool_ptr None
         \<lparr>o_value = Addr 0, o_valid = True\<rparr> ''maybe'' [Some True]
       = (error_value ''json: cannot decode into Go value of type *bool'',
          \<lparr>o_value = Addr 0, o_valid = True\<rparr>, [Some True])
   \<and> Option_UnmarshalJSON json_Unmarshal_bool_ptr None None_Option ''maybe'' [Some True]
       = (error_value ''json: cannot decode into Go value of type *bool'',
          None_Option, [Some True])"
  using UnmarshalJSON_error_keeps_receiver
          [of "''maybe''" json_Unmarshal_bool_ptr None
              "error_value ''json: cannot decode into Go value of type *bool''" None
              "\<lparr>o_value = Addr 0, o_valid = True\<rparr>" "[Some True]"]
        UnmarshalJSON_error_keeps_receiver
          [of "''maybe''" json_Unmarshal_bool_ptr None
              "error_value ''json: cannot decode into Go value of type *bool''" None
              None_Option "[Some True]"]
  by (simp add: json_Unmarshal_bool_ptr_def)

text \<open>
  A payload whose own encoding is \<^verbatim>\<open>null\<close> does not survive the round trip. At
  \<^verbatim>\<open>T = *bool\<close> the encoding round-trips on all three values of the type (nil, pointer to
  true, pointer to false, told apart by what they point to). \<^verbatim>\<open>Some\<close> of the nil
  pointer is present and holds nil; it is marshalled to \<^verbatim>\<open>null\<close>, and
  \<^verbatim>\<open>UnmarshalJSON\<close> of that output is \<^verbatim>\<open>None\<close>, on which \<^verbatim>\<open>Unwrap\<close> panics. A
  value type whose own \<^verbatim>\<open>MarshalJSON\<close> writes \<^verbatim>\<open>null\<close> for one of its values behaves
  the same.
\<close>

theorem Option_JSON_null_payload_counterexample:
  "json_Marshal_bool_ptr None = (''null'', nil_error)
   \<and> json_Unmarshal_bool_ptr ''null'' None = (nil_error, None)
   \<and> json_Unmarshal_bool_ptr (fst (json_Marshal_bool_ptr (Some True))) None
       = (nil_error, Some True)
   \<and> json_Unmarshal_bool_ptr (fst (json_Marshal_bool_ptr (Some False))) None
       = (nil_error, Some False)
   \<and> (case Some_Option (None :: bool option) [] of (opt, h1) \<Rightarrow>
        IsSome opt
        \<and> Option_Unwrap opt h1 = Inr None
        \<and> Option_MarshalJSON json_Marshal_bool_ptr opt h1 = Inr (''null'', nil_error)
        \<and> (case Option_UnmarshalJSON json_Unmarshal_bool_ptr None zero_Option ''null'' h1 of
              (err, opt', h2) \<Rightarrow>
                err = nil_error \<and> \<not> IsSome opt' \<and> opt' = None_Option
                \<and> Option_Unwrap opt' h2 = Inl panic_ErrNoValue))"
  by (simp add: json_Marshal_bool_ptr_def json_Unmarshal_bool_ptr_def option_defs
        Option_MarshalJSON_def json_Marshal_ptr_def Option_UnmarshalJSON_def)

text \<open>
  C7, amended. Marshalling \<^verbatim>\<open>Some(v)\<close> yields exactly what \<^verbatim>\<open>json.Marshal\<close> yields for
  \<^verbatim>\<open>v\<close>. When that encoding \<open>enc\<close> is not the literal \<^verbatim>\<open>null\<close> and decodes back to
  \<^verbatim>\<open>v\<close>, unmarshalling \<open>enc\<close> into any Option yields a present Option that unwraps to
  \<^verbatim>\<open>v\<close>. Marshalling \<^verbatim>\<open>None\<close> yields \<^verbatim>\<open>null\<close>, and unmarshalling \<^verbatim>\<open>null\<close> yields
  \<^verbatim>\<open>None\<close> at every \<^verbatim>\<open>T\<close>, also where \<^verbatim>\<open>null\<close> is the encoding of a value of \<^verbatim>\<open>T\<close>.
\<close>

theorem Option_JSON_roundtrip:
  "(case Some_Option v h of (opt, h1) \<Rightarrow>
      Option_MarshalJSON json_Marshal opt h1 = Inr (json_Marshal v))
   \<and> (json_Marshal v = (enc, nil_error) \<and> json_Unmarshal enc zero = (nil_error, v)
        \<and> enc \<noteq> ''null'' \<longrightarrow>
        (\<exists>opt' h2. Option_UnmarshalJSON json_Unmarshal zero prev enc h = (nil_error, opt', h2)
           \<and> IsSome opt' \<and> Option_Unwrap opt' h2 = Inr v))
   \<and> Option_MarshalJSON json_Marshal None_Option h = Inr (''null'', nil_error)
   \<and> Option_UnmarshalJSON json_Unmarshal zero prev ''null'' h = (nil_error, None_Option, h)"
  by (simp add: option_defs Option_MarshalJSON_def json_Marshal_ptr_def Option_UnmarshalJSON_def)

text \<open>
  The round trip at \<^verbatim>\<open>T = *bool\<close> for a pointer to \<^verbatim>\<open>true\<close>, whose encoding is
  \<^verbatim>\<open>true\<close>.
\<close>

theorem Option_JSON_roundtrip_witness:
  "json_Marshal_bool_ptr (Some True) = (''true'', nil_error)
   \<and> json_Unmarshal_bool_ptr ''true'' None = (nil_error, Some True)
   \<and> ''true'' \<noteq> ''null''
   \<and> (\<exists>opt' h2. Option_UnmarshalJSON json_Unmarshal_bool_ptr None None_Option ''true'' []
                    = (nil_error, opt', h2)
         \<and> IsSome opt' \<and> Option_Unwrap opt' h2 = Inr (Some True))"
  using Option_JSON_roundtrip
          [where v = "Some True" and h = "[]" and json_Marshal = json_Marshal_bool_ptr
             and enc = "''true''" and json_Unmarshal = json_Unmarshal_bool_ptr
             and zero = None and prev = None_Option]
  by (simp add: json_Marshal_bool_ptr_def json_Unmarshal_bool_ptr_def)

section \<open>What a failure carries\<close>

text \<open>
  Each way of building a Result keeps \<open>failure_has_error\<close>, provided the errors that
  come in from outside (an argument, or the result of a callback) are not nil.
\<close>

lemma failure_has_error_Ok: "failure_has_error (fst (Ok v h))"
  by (simp add: failure_has_error_def Ok_def IsErr_def new_def)

lemma failure_has_error_Err: "failure_has_error (Err e) = (e \<noteq> nil_error)"
  by (simp add: failure_has_error_def Err_def IsErr_def)

lemma failure_has_error_Map:
  "failure_has_error r \<Longrightarrow> Result_Map r f h = Inr (r', h') \<Longrightarrow> failure_has_error r'"
  by (auto simp: Result_Map_def failure_has_error_def Ok_def IsErr_def new_def
           split: if_splits sum.splits prod.splits)

lemma failure_has_error_MapTo:
  "failure_has_error r \<Longrightarrow> MapTo r f hT hU = Inr (r', hU') \<Longrightarrow> failure_has_error r'"
  by (auto simp: MapTo_def failure_has_error_def Ok_def Err_def IsErr_def new_def
           split: if_splits sum.splits prod.splits)

lemma failure_has_error_MapErr:
  "\<forall>e s e' s'. f e s = Inr (e', s') \<longrightarrow> e' \<noteq> nil_error \<Longrightarrow>
   MapErr r f s = Inr (r', s') \<Longrightarrow> failure_has_error r'"
  by (fastforce simp: MapErr_def failure_has_error_def Err_def IsErr_def
           split: if_splits sum.splits prod.splits)

lemma failure_has_error_FlatMap:
  "failure_has_error r \<Longrightarrow> \<forall>v s r1 s1. f v s = Inr (r1, s1) \<longrightarrow> failure_has_error r1 \<Longrightarrow>
   Result_FlatMap r f h = Inr (r', h') \<Longrightarrow> failure_has_error r'"
  by (auto simp: Result_FlatMap_def split: if_splits sum.splits)

lemma failure_has_error_FlatMapTo:
  "failure_has_error r \<Longrightarrow> \<forall>v s r1 s1. f v s = Inr (r1, s1) \<longrightarrow> failure_has_error r1 \<Longrightarrow>
   FlatMapTo r f hT s = Inr (r', s') \<Longrightarrow> failure_has_error r'"
  by (auto simp: FlatMapTo_def failure_has_error_def Err_def IsErr_def
           split: if_splits sum.splits)

lemma failure_has_error_ToResult:
  "e \<noteq> nil_error \<Longrightarrow> ToResult opt e h = Inr (r', h') \<Longrightarrow> failure_has_error r'"
  by (auto simp: ToResult_def failure_has_error_def Ok_def Err_def IsErr_def new_def
           split: if_splits sum.splits)

text \<open>
  \<^verbatim>\<open>Err\<close> takes any value of type \<^verbatim>\<open>error\<close>, the nil interface included:
  \<^verbatim>\<open>Err[T](nil)\<close> is a failure whose error is nil.
\<close>

theorem Err_nil_counterexample:
  "IsErr (Err (nil_error :: string error))
   \<and> UnwrapErr (Err (nil_error :: string error)) = Inr nil_error
   \<and> r_err (Err (nil_error :: string error)) = nil_error
   \<and> \<not> failure_has_error (Err (nil_error :: string error))"
  by (simp add: result_defs failure_has_error_def)

text \<open>
  C3, amended. Every Result is a success or a failure and not both. \<^verbatim>\<open>Err(e)\<close> is a
  failure that carries exactly \<^verbatim>\<open>e\<close>, so its error is non-nil precisely when \<^verbatim>\<open>e\<close> is.
  That a failure carries a non-nil error holds of \<^verbatim>\<open>Ok(v)\<close> and is kept by \<^verbatim>\<open>Map\<close>,
  \<^verbatim>\<open>MapTo\<close>, \<^verbatim>\<open>MapErr\<close>, \<^verbatim>\<open>FlatMap\<close>, \<^verbatim>\<open>FlatMapTo\<close> and \<^verbatim>\<open>ToResult\<close>, given
  that the error passed to \<^verbatim>\<open>ToResult\<close> and the errors a \<^verbatim>\<open>MapErr\<close> callback returns
  are not nil and that a \<^verbatim>\<open>FlatMap\<close> or \<^verbatim>\<open>FlatMapTo\<close> callback returns Results with
  the property.
\<close>

theorem Result_failure_has_error:
  "IsOk r \<noteq> IsErr r
   \<and> IsErr (Err e) \<and> r_err (Err e) = e
   \<and> failure_has_error (Err e) = (e \<noteq> nil_error)
   \<and> failure_has_error (fst (Ok v h))
   \<and> (failure_has_error r \<and> Result_Map r f h = Inr (r', h') \<longrightarrow> failure_has_error r')
   \<and> (failure_has_error r \<and> MapTo r g hT hU = Inr (r', hU') \<longrightarrow> failure_has_error r')
   \<and> ((\<forall>e s e' s'. m e s = Inr (e', s') \<longrightarrow> e' \<noteq> nil_error)
        \<and> MapErr r m s = Inr (r', s') \<longrightarrow> failure_has_error r')
   \<and> (failure_has_error r
        \<and> (\<forall>v s r1 s1. k v s = Inr (r1, s1) \<longrightarrow> failure_has_error r1)
        \<and> Result_FlatMap r k h = Inr (r', h') \<longrightarrow> failure_has_error r')
   \<and> (failure_has_error r
        \<and> (\<forall>v s r1 s1. kT v s = Inr (r1, s1) \<longrightarrow> failure_has_error r1)
        \<and> FlatMapTo r kT hT t = Inr (r', t') \<longrightarrow> failure_has_error r')
   \<and> (e \<noteq> nil_error \<and> ToResult opt e h = Inr (r', h') \<longrightarrow> failure_has_error r')"
proof -
  have "IsOk r \<noteq> IsErr r"
    by (simp add: IsOk_def IsErr_def)
  moreover have "IsErr (Err e) \<and> r_err (Err e) = e"
    by (simp add: IsErr_def Err_def)
  ultimately show ?thesis
    using failure_has_error_Err [of e] failure_has_error_Ok [of v h]
      failure_has_error_Map [of r f h r' h'] failure_has_error_MapTo [of r g hT hU r' hU']
      failure_has_error_MapErr [of m r s r' s'] failure_has_error_FlatMap [of r k h r' h']
      failure_has_error_FlatMapTo [of r kT hT t r' t'] failure_has_error_ToResult [of e opt h r' h']
    by blast
qed

text \<open>
  Two runs: \<^verbatim>\<open>MapErr\<close> on a failure with a callback that wraps the error, and
  \<^verbatim>\<open>FlatMap\<close> on \<^verbatim>\<open>Ok(1)\<close> with a callback that fails with an error.
\<close>

theorem Result_failure_has_error_witness:
  "failure_has_error (Err (error_value ''not found'') :: string Result)
   \<and> MapErr (Err (error_value ''not found'')) (\<lambda>e s. Inr (error_value ''wrapped'', s)) ()
       = Inr (Err (error_value ''wrapped''), ())
   \<and> failure_has_error (Err (error_value ''wrapped'') :: string Result)
   \<and> Result_FlatMap (fst (Ok (1 :: nat) [])) (\<lambda>v s. Inr (Err (error_value ''no email''), s)) [1]
       = Inr (Err (error_value ''no email''), [1])
   \<and> failure_has_error (Err (error_value ''no email'') :: string Result)"
proof -
  note of_Err = Result_failure_has_error
    [THEN conjunct2, THEN conjunct2, THEN conjunct2, THEN conjunct1]
  note of_Ok = Result_failure_has_error
    [THEN conjunct2, THEN conjunct2, THEN conjunct2, THEN conjunct2, THEN conjunct1]
  note of_MapErr = Result_failure_has_error
    [THEN conjunct2, THEN conjunct2, THEN conjunct2, THEN conjunct2, THEN conjunct2,
     THEN conjunct2, THEN conjunct2, THEN conjunct1]
  note of_FlatMap = Result_failure_has_error
    [THEN conjunct2, THEN conjunct2, THEN conjunct2, THEN conjunct2, THEN conjunct2,
     THEN conjunct2, THEN conjunct2, THEN conjunct2, THEN conjunct1]
  have a: "failure_has_error (Err (error_value ''not found'') :: string Result)"
    by (simp add: of_Err)
  have b: "MapErr (Err (error_value ''not found'')) (\<lambda>e s. Inr (error_value ''wrapped'', s)) ()
       = Inr (Err (error_value ''wrapped'') :: string Result, ())"
    by (simp add: MapErr_def Err_def)
  have c: "failure_has_error (Err (error_value ''wrapped'') :: string Result)"
    using b of_MapErr [of "\<lambda>e s. Inr (error_value ''wrapped'', s)"
                         "Err (error_value ''not found'')" "()"
                         "Err (error_value ''wrapped'')" "()"]
    by simp
  have d: "Result_FlatMap (fst (Ok (1 :: nat) []))
             (\<lambda>v s. Inr (Err (error_value ''no email''), s)) [1]
       = Inr (Err (error_value ''no email'') :: string Result, [1])"
    by (simp add: Result_FlatMap_def Ok_def new_def deref_def)
  have e: "failure_has_error (Err (error_value ''no email'') :: string Result)"
    using d of_Ok [of "1 :: nat" "[]"]
      of_FlatMap [of "fst (Ok (1 :: nat) [])"
                     "\<lambda>v s. Inr (Err (error_value ''no email''), s)" "[1]"
                     "Err (error_value ''no email'')" "[1]"]
    by (simp add: of_Err)
  from a b c d e show ?thesis by blast
qed

end
